theory Spec2Isabelle
  imports Main "HOL-Library.Sublist"
begin

section \<open>Python values, keyword arguments and exceptions\<close>

text \<open>
  The diagnostic classes of \<^verbatim>\<open>xml_exceptions.py\<close> receive their fields as a keyword
  dictionary and read them with \<^verbatim>\<open>kwargs['key']\<close>. A field is a Python string or
  \<^verbatim>\<open>None\<close> (the docstrings write "url_name (or None)"). A string is a
  \<open>char list\<close>; one \<open>char\<close> stands for one character of the Python string.
\<close>

datatype pyval = PNone | PStr string

type_synonym kwargs = "string \<rightharpoonup> pyval"

datatype py_error = KeyError string | AttributeError string

text \<open>Truth value of a field in an \<^verbatim>\<open>if\<close>: \<^verbatim>\<open>None\<close> and the empty string are false.\<close>

fun truthy :: "pyval \<Rightarrow> bool" where
  "truthy PNone = False"
| "truthy (PStr s) = (s \<noteq> [])"

text \<open>What a replacement field \<^verbatim>\<open>{v}\<close> of an f-string renders.\<close>

fun format :: "pyval \<Rightarrow> string" where
  "format PNone = ''None''"
| "format (PStr s) = s"

text \<open>\<^verbatim>\<open>kwargs[k]\<close>: a missing key raises \<^verbatim>\<open>KeyError\<close>.\<close>

definition getitem :: "kwargs \<Rightarrow> string \<Rightarrow> py_error + pyval" where
  "getitem kw k = (case kw k of None \<Rightarrow> Inl (KeyError k) | Some v \<Rightarrow> Inr v)"

text \<open>Sequencing: an exception raised by the first step skips the rest.\<close>

fun bind :: "py_error + 'a \<Rightarrow> ('a \<Rightarrow> py_error + 'b) \<Rightarrow> py_error + 'b" where
  "bind (Inl e) f = Inl e"
| "bind (Inr v) f = f v"

text \<open>
  \<^verbatim>\<open>str.isspace\<close> on the characters a \<open>char\<close> can hold (code points below 256):
  tab to carriage return, the separators 28 to 31, space, NEL (133) and the
  no-break space (160).
\<close>

definition isspace :: "char \<Rightarrow> bool" where
  "isspace c = (List.member [9, 10, 11, 12, 13, 28, 29, 30, 31, 32, 133, 160] (of_char c :: nat))"

text \<open>\<^verbatim>\<open>s.strip()\<close> removes the whitespace at both ends of \<open>s\<close>.\<close>

definition strip :: "string \<Rightarrow> string" where
  "strip s = rev (dropWhile isspace (rev (dropWhile isspace s)))"

text \<open>\<^verbatim>\<open>v.strip()\<close> as a method call: \<^verbatim>\<open>None\<close> has no such attribute.\<close>

fun strip_method :: "pyval \<Rightarrow> py_error + string" where
  "strip_method PNone = Inl (AttributeError ''strip'')"
| "strip_method (PStr s) = Inr (strip s)"

text \<open>The apostrophe that the message templates put around some fields.\<close>

definition apos :: string where
  "apos = [CHR 0x27]"

section \<open>The diagnostic catalog\<close>

text \<open>The fifteen classes of \<^verbatim>\<open>xml_exceptions.py\<close>, in the order of the file.\<close>

datatype kind =
    CourseXMLDoesNotExist
  | InvalidXML
  | InvalidHTML
  | CourseXMLName
  | TagMismatch
  | EmptyTag
  | ExtraURLName
  | InvalidPointer
  | FileDoesNotExist
  | SelfPointer
  | UnexpectedTag
  | PossiblePointer
  | UnexpectedContent
  | NonFlatURLName
  | NonFlatFilename

definition all_kinds :: "kind list" where
  "all_kinds = [CourseXMLDoesNotExist, InvalidXML, InvalidHTML, CourseXMLName, TagMismatch,
     EmptyTag, ExtraURLName, InvalidPointer, FileDoesNotExist, SelfPointer, UnexpectedTag,
     PossiblePointer, UnexpectedContent, NonFlatURLName, NonFlatFilename]"

text \<open>
  Modelled from the spec: the enumeration \<^verbatim>\<open>ErrorLevel\<close> of
  \<^verbatim>\<open>edx_xml_clean.exceptions\<close>, which is not among the sources. The spec gives
  Severity the two values ERROR and WARNING, the two that the classes use.
\<close>

datatype ErrorLevel = ERROR | WARNING

text \<open>The class attribute \<^verbatim>\<open>_level\<close> of each class.\<close>

fun kind_level :: "kind \<Rightarrow> ErrorLevel" where
  "kind_level CourseXMLDoesNotExist = ERROR"
| "kind_level InvalidXML = ERROR"
| "kind_level InvalidHTML = ERROR"
| "kind_level CourseXMLName = WARNING"
| "kind_level TagMismatch = ERROR"
| "kind_level EmptyTag = WARNING"
| "kind_level ExtraURLName = ERROR"
| "kind_level InvalidPointer = ERROR"
| "kind_level FileDoesNotExist = ERROR"
| "kind_level SelfPointer = ERROR"
| "kind_level UnexpectedTag = ERROR"
| "kind_level PossiblePointer = WARNING"
| "kind_level UnexpectedContent = ERROR"
| "kind_level NonFlatURLName = WARNING"
| "kind_level NonFlatFilename = WARNING"

text \<open>The name of each class, as its \<^verbatim>\<open>class\<close> statement gives it.\<close>

fun kind_name :: "kind \<Rightarrow> string" where
  "kind_name CourseXMLDoesNotExist = ''CourseXMLDoesNotExist''"
| "kind_name InvalidXML = ''InvalidXML''"
| "kind_name InvalidHTML = ''InvalidHTML''"
| "kind_name CourseXMLName = ''CourseXMLName''"
| "kind_name TagMismatch = ''TagMismatch''"
| "kind_name EmptyTag = ''EmptyTag''"
| "kind_name ExtraURLName = ''ExtraURLName''"
| "kind_name InvalidPointer = ''InvalidPointer''"
| "kind_name FileDoesNotExist = ''FileDoesNotExist''"
| "kind_name SelfPointer = ''SelfPointer''"
| "kind_name UnexpectedTag = ''UnexpectedTag''"
| "kind_name PossiblePointer = ''PossiblePointer''"
| "kind_name UnexpectedContent = ''UnexpectedContent''"
| "kind_name NonFlatURLName = ''NonFlatURLName''"
| "kind_name NonFlatFilename = ''NonFlatFilename''"

text \<open>
  The keyword fields that the docstring of each \<^verbatim>\<open>__init__\<close> lists under
  "Expects kwargs"; they are the keys that its body reads.
\<close>

fun expected_kwargs :: "kind \<Rightarrow> string list" where
  "expected_kwargs CourseXMLDoesNotExist = []"
| "expected_kwargs InvalidXML = [''error'']"
| "expected_kwargs InvalidHTML = [''error'']"
| "expected_kwargs CourseXMLName = []"
| "expected_kwargs TagMismatch = [''tag1'', ''tag2'']"
| "expected_kwargs EmptyTag = [''tag'', ''url_name'']"
| "expected_kwargs ExtraURLName = [''tag'']"
| "expected_kwargs InvalidPointer = [''tag'', ''url_name'']"
| "expected_kwargs FileDoesNotExist = [''tag'', ''url_name'', ''new_file'']"
| "expected_kwargs SelfPointer = [''tag'', ''url_name'']"
| "expected_kwargs UnexpectedTag = [''tag'', ''parent'', ''url_name'']"
| "expected_kwargs PossiblePointer = [''tag'', ''url_name'', ''new_file'']"
| "expected_kwargs UnexpectedContent = [''tag'', ''url_name'', ''text'']"
| "expected_kwargs NonFlatURLName = [''tag'', ''url_name'']"
| "expected_kwargs NonFlatFilename = [''url_name'']"

text \<open>
  The value that each \<^verbatim>\<open>__init__\<close> leaves in \<^verbatim>\<open>self._description\<close>, or the
  exception it raises. The keys are read in the order in which the body evaluates
  them: the condition of an \<^verbatim>\<open>if\<close> first, then the replacement fields of the
  f-string from left to right. \<^verbatim>\<open>InvalidXML\<close> and \<^verbatim>\<open>InvalidHTML\<close> store the field
  itself, without formatting it.
\<close>

fun describe :: "kind \<Rightarrow> string \<Rightarrow> kwargs \<Rightarrow> py_error + pyval" where
  "describe CourseXMLDoesNotExist filename kw =
     Inr (PStr (''The file '' @ apos @ filename @ apos @ '' does not exist.''))"
| "describe InvalidXML filename kw = getitem kw ''error''"
| "describe InvalidHTML filename kw = getitem kw ''error''"
| "describe CourseXMLName filename kw =
     Inr (PStr (''The course file, '' @ filename @ '', is not named course.xml''))"
| "describe TagMismatch filename kw =
     bind (getitem kw ''tag1'') (\<lambda>tag1.
     bind (getitem kw ''tag2'') (\<lambda>tag2.
       Inr (PStr (''A file is of type <'' @ format tag1 @ ''> but ''
                  @ ''opens with a <'' @ format tag2 @ ''> tag''))))"
| "describe EmptyTag filename kw =
     bind (getitem kw ''url_name'') (\<lambda>c.
       if truthy c then
         bind (getitem kw ''tag'') (\<lambda>tag.
         bind (getitem kw ''url_name'') (\<lambda>url_name.
           Inr (PStr (''The <'' @ format tag @ ''> tag with url_name '' @ apos
                      @ format url_name @ apos @ '' '' @ ''is unexpectedly empty''))))
       else
         bind (getitem kw ''tag'') (\<lambda>tag.
           Inr (PStr (''A <'' @ format tag @ ''> tag with no url_name is unexpectedly empty''))))"
| "describe ExtraURLName filename kw =
     bind (getitem kw ''tag'') (\<lambda>tag.
       Inr (PStr (''The opening <'' @ format tag @ ''> tag shouldn'' @ apos
                  @ ''t have a url_name attribute'')))"
| "describe InvalidPointer filename kw =
     bind (getitem kw ''tag'') (\<lambda>tag.
     bind (getitem kw ''url_name'') (\<lambda>url_name.
       Inr (PStr (''The <'' @ format tag @ ''> tag with url_name '' @ apos
                  @ format url_name @ apos @ '' ''
                  @ ''looks like it is an invalid pointer tag''))))"
| "describe FileDoesNotExist filename kw =
     bind (getitem kw ''tag'') (\<lambda>tag.
     bind (getitem kw ''url_name'') (\<lambda>url_name.
     bind (getitem kw ''new_file'') (\<lambda>new_file.
       Inr (PStr (''The <'' @ format tag @ ''> tag with url_name '' @ format url_name
                  @ '' points to '' @ ''the file '' @ format new_file
                  @ '' that does not exist'')))))"
| "describe SelfPointer filename kw =
     bind (getitem kw ''tag'') (\<lambda>tag.
     bind (getitem kw ''url_name'') (\<lambda>url_name.
       Inr (PStr (''The tag <'' @ format tag @ ''> with url_name '' @ format url_name
                  @ '' '' @ ''appears to be pointing to itself''))))"
| "describe UnexpectedTag filename kw =
     bind (getitem kw ''url_name'') (\<lambda>c.
       if truthy c then
         bind (getitem kw ''tag'') (\<lambda>tag.
         bind (getitem kw ''parent'') (\<lambda>parent.
         bind (getitem kw ''url_name'') (\<lambda>url_name.
           Inr (PStr (''A <'' @ format tag @ ''> tag was unexpectedly found inside the <''
                      @ format parent @ ''> tag with '' @ ''url_name ''
                      @ format url_name)))))
       else
         bind (getitem kw ''tag'') (\<lambda>tag.
         bind (getitem kw ''parent'') (\<lambda>parent.
           Inr (PStr (''A <'' @ format tag @ ''> tag was unexpectedly found inside a <''
                      @ format parent @ ''> tag with '' @ ''no url_name'')))))"
| "describe PossiblePointer filename kw =
     bind (getitem kw ''tag'') (\<lambda>tag.
     bind (getitem kw ''url_name'') (\<lambda>url_name.
     bind (getitem kw ''new_file'') (\<lambda>new_file.
       Inr (PStr (''The <'' @ format tag @ ''> tag with url_name '' @ apos
                  @ format url_name @ apos @ '' ''
                  @ ''is not a pointer, but a file that it could point to exists (''
                  @ format new_file @ '')'')))))"
| "describe UnexpectedContent filename kw =
     bind (getitem kw ''url_name'') (\<lambda>c.
     bind (if truthy c then
             bind (getitem kw ''tag'') (\<lambda>tag.
             bind (getitem kw ''url_name'') (\<lambda>url_name.
               Inr (''The <'' @ format tag @ ''> tag with url_name '' @ apos
                    @ format url_name @ apos)))
           else
             bind (getitem kw ''tag'') (\<lambda>tag.
               Inr (''A <'' @ format tag @ ''> tag with no url_name''))) (\<lambda>description.
     bind (getitem kw ''text'') (\<lambda>text.
     bind (strip_method text) (\<lambda>stripped.
       Inr (PStr (description @ '' should not contain any text ('' @ take 10 stripped
                  @ ''...)''))))))"
| "describe NonFlatURLName filename kw =
     bind (getitem kw ''tag'') (\<lambda>tag.
     bind (getitem kw ''url_name'') (\<lambda>url_name.
       Inr (PStr (''The <'' @ format tag @ ''> tag with url_name '' @ format url_name
                  @ '' ''
                  @ ''uses obsolete colon notation in the url_name to point to a subdirectory''))))"
| "describe NonFlatFilename filename kw =
     bind (getitem kw ''url_name'') (\<lambda>c.
       if truthy c then
         bind (getitem kw ''url_name'') (\<lambda>url_name.
           Inr (PStr (''The <html> tag with url_name '' @ format url_name @ '' ''
                      @ ''uses obsolete colon notation to point to a subdirectory for filename ''
                      @ filename)))
       else
         Inr (PStr (''An <html> tag with no url_name ''
                    @ ''uses obsolete colon notation to point to a subdirectory for filename ''
                    @ filename)))"

text \<open>
  Modelled from the spec: the base class \<^verbatim>\<open>CourseError\<close> of
  \<^verbatim>\<open>edx_xml_clean.exceptions\<close>, which is not among the sources. By the spec's data
  model a diagnostic holds its kind, the severity copied from the kind at
  construction, the filename and the description computed at construction; its name
  is the type name of the kind.
\<close>

record CourseError =
  kind :: kind
  level :: ErrorLevel
  filename :: string
  description :: pyval

definition name :: "CourseError \<Rightarrow> string" where
  "name e = kind_name (kind e)"

text \<open>
  Constructing an instance of class \<open>K\<close>: \<^verbatim>\<open>K(filename, **kwargs)\<close>. An exception
  raised in \<^verbatim>\<open>__init__\<close> leaves no instance.
\<close>

definition construct :: "kind \<Rightarrow> string \<Rightarrow> kwargs \<Rightarrow> py_error + CourseError" where
  "construct K fname kw =
     bind (describe K fname kw) (\<lambda>d.
       Inr \<lparr>kind = K, level = kind_level K, filename = fname, description = d\<rparr>)"

section \<open>The error store and the reporter\<close>

text \<open>
  Modelled from the spec: the error store, whose class is not among the sources.
  By the spec it is an ordered, append-only sequence of diagnostics in raise order,
  read by the reporter through its attribute \<^verbatim>\<open>errors\<close>.
\<close>

record ErrorStore =
  errors :: "CourseError list"

text \<open>
  Modelled from the spec: \<^verbatim>\<open>raise_diagnostic(kind, filename, **fields)\<close> of the
  spec's external interface, which constructs a diagnostic and appends it to the
  store. A construction that raises leaves the store as it was.
\<close>

definition raise_diagnostic ::
  "kind \<Rightarrow> string \<Rightarrow> kwargs \<Rightarrow> ErrorStore \<Rightarrow> py_error + ErrorStore" where
  "raise_diagnostic K fname kw errorstore =
     bind (construct K fname kw) (\<lambda>e.
       Inr (errorstore\<lparr>errors := errors errorstore @ [e]\<rparr>))"

text \<open>
  Modelled from the spec: the text that the attribute \<^verbatim>\<open>level\<close> of the absent base
  class renders in an f-string. The spec's report line starts with the severity,
  written \<^verbatim>\<open>ERROR\<close> or \<^verbatim>\<open>WARNING\<close>.
\<close>

fun level_text :: "ErrorLevel \<Rightarrow> string" where
  "level_text ERROR = ''ERROR''"
| "level_text WARNING = ''WARNING''"

text \<open>
  Standard output is the sequence of the texts written so far, one element for each
  call of \<^verbatim>\<open>print\<close>: the argument followed by a line feed. The bytes of the
  stream are the concatenation of the elements.
\<close>

type_synonym stdout = "string list"

definition print :: "string \<Rightarrow> stdout \<Rightarrow> stdout" where
  "print s out = out @ [s @ [CHR 0x0A]]"

definition bytes :: "stdout \<Rightarrow> string" where
  "bytes out = concat out"

text \<open>
  The f-string of \<^verbatim>\<open>report_errors\<close>:
  \<^verbatim>\<open>f"{error.level} ({error.filename}): {error.description} ({error.name})"\<close>.
\<close>

definition report_line :: "CourseError \<Rightarrow> string" where
  "report_line error =
     level_text (level error) @ '' ('' @ filename error @ ''): ''
     @ format (description error) @ '' ('' @ name error @ '')''"

text \<open>The \<^verbatim>\<open>for\<close> loop of \<^verbatim>\<open>report_errors\<close>: one \<^verbatim>\<open>print\<close> for each element.\<close>

fun report_loop :: "CourseError list \<Rightarrow> stdout \<Rightarrow> stdout" where
  "report_loop [] out = out"
| "report_loop (error # rest) out = report_loop rest (print (report_line error) out)"

text \<open>
  \<^verbatim>\<open>report_errors(errorstore)\<close>, passing the state explicitly: it takes the store and
  standard output, and returns the store as the call leaves it together with the new
  standard output. A list is true in an \<^verbatim>\<open>if\<close> when it is not empty.
\<close>

definition report_errors :: "ErrorStore \<Rightarrow> stdout \<Rightarrow> ErrorStore \<times> stdout" where
  "report_errors errorstore out =
     (if errors errorstore \<noteq> [] then (errorstore, report_loop (errors errorstore) out)
      else (errorstore, print ''No errors found!'' out))"

section \<open>Auxiliary facts\<close>

lemma getitem_Some: "kw k = Some v \<Longrightarrow> getitem kw k = Inr v"
  by (simp add: getitem_def)

lemma getitem_None: "kw k = None \<Longrightarrow> getitem kw k = Inl (KeyError k)"
  by (simp add: getitem_def)

lemma getitem_Inr_iff: "getitem kw k = Inr v \<longleftrightarrow> kw k = Some v"
  by (simp add: getitem_def split: option.splits)

lemma bind_Inr_iff: "bind m f = Inr y \<longleftrightarrow> (\<exists>x. m = Inr x \<and> f x = Inr y)"
  by (cases m) simp_all

lemma strip_method_Inr_iff: "strip_method v = Inr s \<longleftrightarrow> (\<exists>t. v = PStr t \<and> s = strip t)"
  by (cases v) auto

text \<open>The loop writes one element for each diagnostic, after what was there.\<close>

lemma report_loop_append:
  "report_loop es out = out @ map (\<lambda>e. report_line e @ [CHR 0x0A]) es"
  by (induction es arbitrary: out) (simp_all add: print_def)

section \<open>The reporter\<close>





text \<open>
  C9. The message written for an empty store is exactly the text
  \<^verbatim>\<open>No errors found!\<close>.
\<close>

theorem report_errors_no_errors_text:
  "errors errorstore = [] \<Longrightarrow>
     report_errors errorstore out = (errorstore, out @ [''No errors found!'' @ [CHR 0x0A]])"
  by (simp add: report_errors_def print_def)

theorem report_errors_no_errors_text_witness:
  "errors \<lparr>errors = []\<rparr> = []
   \<and> bytes (snd (report_errors \<lparr>errors = []\<rparr> [])) = ''No errors found!'' @ [CHR 0x0A]"
  using report_errors_no_errors_text [of "\<lparr>errors = []\<rparr>" "[]"]
  by (simp add: bytes_def)

text \<open>
  C8. \<^verbatim>\<open>report_errors\<close> leaves the store as it was, and what it writes depends on
  the store alone: it is what the call writes to an empty standard output. So a
  second call on the same store, right after the first, writes the same text again.
\<close>

theorem report_errors_twice:
  "fst (report_errors errorstore out) = errorstore
   \<and> snd (report_errors errorstore out) = out @ snd (report_errors errorstore [])
   \<and> snd (report_errors (fst (report_errors errorstore out)) (snd (report_errors errorstore out)))
       = out @ snd (report_errors errorstore []) @ snd (report_errors errorstore [])
   \<and> bytes (snd (report_errors (fst (report_errors errorstore [])) []))
       = bytes (snd (report_errors errorstore []))"
  by (simp add: report_errors_def report_loop_append print_def)

section \<open>Facts about the catalog\<close>

text \<open>An instance is built exactly when \<^verbatim>\<open>__init__\<close> computes a description.\<close>

lemma construct_eq:
  "describe K fname kw = Inr d \<Longrightarrow>
     construct K fname kw = Inr \<lparr>kind = K, level = kind_level K, filename = fname, description = d\<rparr>"
  by (simp add: construct_def)

lemma construct_Inr_iff:
  "construct K fname kw = Inr e \<longleftrightarrow>
     (\<exists>d. describe K fname kw = Inr d
        \<and> e = \<lparr>kind = K, level = kind_level K, filename = fname, description = d\<rparr>)"
  by (auto simp: construct_def bind_Inr_iff)

lemma construct_Inl: "describe K fname kw = Inl x \<Longrightarrow> construct K fname kw = Inl x"
  by (simp add: construct_def)

text \<open>The descriptions of the four classes that test \<^verbatim>\<open>url_name\<close>, with every field
  they read present.\<close>

lemma describe_EmptyTag:
  assumes "kw ''url_name'' = Some u" and "kw ''tag'' = Some tag"
  shows "describe EmptyTag fname kw =
           Inr (PStr (if truthy u
                      then ''The <'' @ format tag @ ''> tag with url_name '' @ apos @ format u
                           @ apos @ '' is unexpectedly empty''
                      else ''A <'' @ format tag @ ''> tag with no url_name is unexpectedly empty''))"
  using assms by (simp add: getitem_Some)

lemma describe_UnexpectedTag:
  assumes "kw ''url_name'' = Some u" and "kw ''tag'' = Some tag" and "kw ''parent'' = Some parent"
  shows "describe UnexpectedTag fname kw =
           Inr (PStr (if truthy u
                      then ''A <'' @ format tag @ ''> tag was unexpectedly found inside the <''
                           @ format parent @ ''> tag with url_name '' @ format u
                      else ''A <'' @ format tag @ ''> tag was unexpectedly found inside a <''
                           @ format parent @ ''> tag with no url_name''))"
  using assms by (simp add: getitem_Some)

lemma describe_UnexpectedContent:
  assumes "kw ''url_name'' = Some u" and "kw ''tag'' = Some tag"
    and "kw ''text'' = Some (PStr text)"
  shows "describe UnexpectedContent fname kw =
           Inr (PStr ((if truthy u
                       then ''The <'' @ format tag @ ''> tag with url_name '' @ apos @ format u
                            @ apos
                       else ''A <'' @ format tag @ ''> tag with no url_name'')
                      @ '' should not contain any text ('' @ take 10 (strip text) @ ''...)''))"
  using assms by (simp add: getitem_Some)

lemma describe_NonFlatFilename:
  assumes "kw ''url_name'' = Some u"
  shows "describe NonFlatFilename fname kw =
           Inr (PStr (if truthy u
                      then ''The <html> tag with url_name '' @ format u
                           @ '' uses obsolete colon notation to point to a subdirectory for filename ''
                           @ fname
                      else ''An <html> tag with no url_name uses obsolete colon notation to point to a subdirectory for filename ''
                           @ fname))"
  using assms by (simp add: getitem_Some)

text \<open>A description that was computed had its fields.\<close>

lemma describe_EmptyTag_reads:
  "describe EmptyTag fname kw = Inr v \<Longrightarrow> \<exists>tag. kw ''tag'' = Some tag"
  by (auto simp: bind_Inr_iff getitem_Inr_iff split: if_splits)

lemma describe_UnexpectedTag_reads:
  "describe UnexpectedTag fname kw = Inr v \<Longrightarrow>
     \<exists>tag parent. kw ''tag'' = Some tag \<and> kw ''parent'' = Some parent"
  by (auto simp: bind_Inr_iff getitem_Inr_iff split: if_splits)

lemma describe_UnexpectedContent_reads:
  "describe UnexpectedContent fname kw = Inr v \<Longrightarrow>
     \<exists>tag text. kw ''tag'' = Some tag \<and> kw ''text'' = Some (PStr text)"
  by (auto simp: bind_Inr_iff getitem_Inr_iff strip_method_Inr_iff split: if_splits)

text \<open>The phrase that each of the four descriptions contains.\<close>

lemma sublist_mid: "d = ps @ xs @ ss \<Longrightarrow> sublist xs d"
  by simp

lemma sublist_quoted: "sublist (apos @ s @ apos) d \<Longrightarrow> sublist s d"
  by (meson sublist_appendI sublist_order.order_trans)

lemma phrase_EmptyTag:
  assumes u: "kw ''url_name'' = Some u" and d: "describe EmptyTag fname kw = Inr (PStr d)"
  shows "if truthy u then sublist (apos @ format u @ apos) d else sublist ''with no url_name'' d"
proof -
  from d obtain tag where t: "kw ''tag'' = Some tag"
    using describe_EmptyTag_reads by blast
  note eq = describe_EmptyTag [of kw u tag fname, OF u t]
  show ?thesis
  proof (cases "truthy u")
    case True
    with eq d have "d = (''The <'' @ format tag @ ''> tag with url_name '')
                          @ (apos @ format u @ apos) @ '' is unexpectedly empty''"
      by (simp del: describe.simps)
    then show ?thesis using True by (simp only: sublist_mid if_True)
  next
    case False
    with eq d have "d = (''A <'' @ format tag @ ''> tag '') @ ''with no url_name''
                          @ '' is unexpectedly empty''"
      by (simp del: describe.simps)
    then show ?thesis using False by (simp only: sublist_mid if_False)
  qed
qed

lemma phrase_UnexpectedTag:
  assumes u: "kw ''url_name'' = Some u" and d: "describe UnexpectedTag fname kw = Inr (PStr d)"
  shows "if truthy u then sublist (format u) d else sublist ''with no url_name'' d"
proof -
  from d obtain tag parent where t: "kw ''tag'' = Some tag" and p: "kw ''parent'' = Some parent"
    using describe_UnexpectedTag_reads by blast
  note eq = describe_UnexpectedTag [of kw u tag parent fname, OF u t p]
  show ?thesis
  proof (cases "truthy u")
    case True
    with eq d have "d = (''A <'' @ format tag @ ''> tag was unexpectedly found inside the <''
                          @ format parent @ ''> tag with url_name '') @ format u @ []"
      by (simp del: describe.simps)
    then show ?thesis using True by (simp only: sublist_mid if_True)
  next
    case False
    with eq d have "d = (''A <'' @ format tag @ ''> tag was unexpectedly found inside a <''
                          @ format parent @ ''> tag '') @ ''with no url_name'' @ []"
      by (simp del: describe.simps)
    then show ?thesis using False by (simp only: sublist_mid if_False)
  qed
qed

lemma phrase_UnexpectedContent:
  assumes u: "kw ''url_name'' = Some u"
    and d: "describe UnexpectedContent fname kw = Inr (PStr d)"
  shows "if truthy u then sublist (apos @ format u @ apos) d else sublist ''with no url_name'' d"
proof -
  from d obtain tag body where t: "kw ''tag'' = Some tag" and x: "kw ''text'' = Some (PStr body)"
    using describe_UnexpectedContent_reads by blast
  note eq = describe_UnexpectedContent [of kw u tag body fname, OF u t x]
  show ?thesis
  proof (cases "truthy u")
    case True
    with eq d have "d = (''The <'' @ format tag @ ''> tag with url_name '')
                          @ (apos @ format u @ apos)
                          @ ('' should not contain any text ('' @ take 10 (strip body) @ ''...)'')"
      by (simp del: describe.simps)
    then show ?thesis using True by (simp only: sublist_mid if_True)
  next
    case False
    with eq d have "d = (''A <'' @ format tag @ ''> tag '') @ ''with no url_name''
                          @ ('' should not contain any text ('' @ take 10 (strip body) @ ''...)'')"
      by (simp del: describe.simps)
    then show ?thesis using False by (simp only: sublist_mid if_False)
  qed
qed

lemma phrase_NonFlatFilename:
  assumes u: "kw ''url_name'' = Some u"
    and d: "describe NonFlatFilename fname kw = Inr (PStr d)"
  shows "if truthy u then sublist (format u) d else sublist ''with no url_name'' d"
proof -
  note eq = describe_NonFlatFilename [of kw u fname, OF u]
  show ?thesis
  proof (cases "truthy u")
    case True
    with eq d have "d = ''The <html> tag with url_name '' @ format u
                          @ ('' uses obsolete colon notation to point to a subdirectory for filename ''
                             @ fname)"
      by (simp del: describe.simps)
    then show ?thesis using True by (simp only: sublist_mid if_True)
  next
    case False
    with eq d have "d = ''An <html> tag '' @ ''with no url_name''
                          @ ('' uses obsolete colon notation to point to a subdirectory for filename ''
                             @ fname)"
      by (simp del: describe.simps)
    then show ?thesis using False by (simp only: sublist_mid if_False)
  qed
qed

text \<open>
  \<^verbatim>\<open>strip\<close> cuts whitespace off both ends and nothing else: what it removes is
  whitespace, and what it leaves neither starts nor ends with whitespace.
\<close>

lemma rev_dropWhile_split:
  "xs = rev (dropWhile P (rev xs)) @ rev (takeWhile P (rev xs))"
proof -
  have "rev (rev (dropWhile P (rev xs)) @ rev (takeWhile P (rev xs)))
          = takeWhile P (rev xs) @ dropWhile P (rev xs)"
    by (simp only: rev_append rev_rev_ident)
  also have "\<dots> = rev xs"
    by (simp only: takeWhile_dropWhile_id)
  finally show ?thesis
    by (simp only: rev_is_rev_conv)
qed

lemma strip_split:
  "dropWhile isspace s = strip s @ rev (takeWhile isspace (rev (dropWhile isspace s)))"
  unfolding strip_def by (rule rev_dropWhile_split)

lemma strip_trims:
  "\<exists>l r. s = l @ strip s @ r \<and> list_all isspace l \<and> list_all isspace r"
proof -
  let ?l = "takeWhile isspace s"
  let ?r = "rev (takeWhile isspace (rev (dropWhile isspace s)))"
  have "s = ?l @ dropWhile isspace s"
    by (simp only: takeWhile_dropWhile_id)
  also have "dropWhile isspace s = strip s @ ?r"
    by (rule strip_split)
  finally have 1: "s = ?l @ strip s @ ?r" .
  have 2: "list_all isspace ?l"
    unfolding list_all_iff by (blast dest: set_takeWhileD)
  have 3: "list_all isspace ?r"
    unfolding list_all_iff set_rev by (blast dest: set_takeWhileD)
  from 1 2 3 show ?thesis by blast
qed

lemma strip_ends:
  "strip s = [] \<or> (\<not> isspace (hd (strip s)) \<and> \<not> isspace (last (strip s)))"
proof (cases "strip s = []")
  case True
  then show ?thesis by simp
next
  case False
  let ?a = "dropWhile isspace s"
  let ?b = "dropWhile isspace (rev ?a)"
  from False have b: "?b \<noteq> []" by (simp add: strip_def)
  have a: "?a \<noteq> []"
  proof
    assume e: "?a = []"
    have "?b = dropWhile isspace (rev [])" by (simp only: e)
    with b show False by simp
  qed
  have "last (strip s) = hd ?b" using b by (simp add: strip_def last_rev)
  moreover have "\<not> isspace (hd ?b)" using b by (rule hd_dropWhile)
  ultimately have l: "\<not> isspace (last (strip s))" by simp
  have "hd ?a = hd (strip s @ rev (takeWhile isspace (rev ?a)))"
    using strip_split [of s] by (rule arg_cong)
  with False have "hd ?a = hd (strip s)" by simp
  moreover have "\<not> isspace (hd ?a)" using a by (rule hd_dropWhile)
  ultimately have "\<not> isspace (hd (strip s))" by simp
  with l show ?thesis by simp
qed

lemma strip_paragraph: "take 10 (strip ''This is a long paragraph of text'') = ''This is a ''"
  by (simp add: strip_def isspace_def)

text \<open>\<^verbatim>\<open>UnexpectedContent\<close> with a key missing: the first key read that is absent raises.\<close>

lemma UnexpectedContent_no_url_name:
  "kw ''url_name'' = None \<Longrightarrow>
     describe UnexpectedContent fname kw = Inl (KeyError ''url_name'')"
  by (simp add: getitem_def)

lemma UnexpectedContent_no_tag:
  "kw ''url_name'' = Some u \<Longrightarrow> kw ''tag'' = None \<Longrightarrow>
     describe UnexpectedContent fname kw = Inl (KeyError ''tag'')"
  by (simp add: getitem_def)

lemma UnexpectedContent_no_text:
  "kw ''url_name'' = Some u \<Longrightarrow> kw ''tag'' = Some t \<Longrightarrow> kw ''text'' = None \<Longrightarrow>
     describe UnexpectedContent fname kw = Inl (KeyError ''text'')"
  by (simp add: getitem_def)

lemma UnexpectedContent_missing:
  assumes "f \<in> set (expected_kwargs UnexpectedContent)" and "kw f = None"
  shows "\<exists>g. g \<in> set (expected_kwargs UnexpectedContent) \<and> kw g = None
           \<and> construct UnexpectedContent fname kw = Inl (KeyError g)"
proof (cases "kw ''url_name''")
  case None
  then have "construct UnexpectedContent fname kw = Inl (KeyError ''url_name'')"
    by (intro construct_Inl UnexpectedContent_no_url_name)
  with None show ?thesis by (intro exI [of _ "''url_name''"]) simp
next
  case u: (Some u)
  show ?thesis
  proof (cases "kw ''tag''")
    case None
    with u have "construct UnexpectedContent fname kw = Inl (KeyError ''tag'')"
      by (intro construct_Inl UnexpectedContent_no_tag)
    with None show ?thesis by (intro exI [of _ "''tag''"]) simp
  next
    case t: (Some t)
    from assms have "f = ''tag'' \<or> f = ''url_name'' \<or> f = ''text''" by simp
    with assms(2) u t have x: "kw ''text'' = None" by auto
    with u t have "construct UnexpectedContent fname kw = Inl (KeyError ''text'')"
      by (intro construct_Inl UnexpectedContent_no_text)
    with x show ?thesis by (intro exI [of _ "''text''"]) simp
  qed
qed

section \<open>The catalog\<close>

text \<open>
  C3. For the classes \<^verbatim>\<open>EmptyTag\<close>, \<^verbatim>\<open>UnexpectedTag\<close>, \<^verbatim>\<open>UnexpectedContent\<close> and
  \<^verbatim>\<open>NonFlatFilename\<close>, constructed with the field \<^verbatim>\<open>url_name\<close> supplied as \<open>u\<close>
  and the other fields they read present: when \<open>u\<close> is false (\<^verbatim>\<open>None\<close> or the empty
  string) the description is the alternate template, which does not mention \<open>u\<close>
  and contains the phrase \<^verbatim>\<open>with no url_name\<close>; when \<open>u\<close> is true the description is
  the template that contains the value of \<open>u\<close>, for \<^verbatim>\<open>EmptyTag\<close> between
  apostrophes.
\<close>

theorem url_name_phrasing:
  assumes u: "kw ''url_name'' = Some u"
  shows
    "(\<forall>tag. kw ''tag'' = Some tag \<longrightarrow>
        construct EmptyTag fname kw =
          Inr \<lparr>kind = EmptyTag, level = WARNING, filename = fname,
               description = PStr (
                 if truthy u
                 then ''The <'' @ format tag @ ''> tag with url_name '' @ apos @ format u @ apos
                      @ '' is unexpectedly empty''
                 else ''A <'' @ format tag @ ''> tag with no url_name is unexpectedly empty'')\<rparr>
        \<and> (\<forall>parent. kw ''parent'' = Some parent \<longrightarrow>
             construct UnexpectedTag fname kw =
               Inr \<lparr>kind = UnexpectedTag, level = ERROR, filename = fname,
                    description = PStr (
                      if truthy u
                      then ''A <'' @ format tag @ ''> tag was unexpectedly found inside the <''
                           @ format parent @ ''> tag with url_name '' @ format u
                      else ''A <'' @ format tag @ ''> tag was unexpectedly found inside a <''
                           @ format parent @ ''> tag with no url_name'')\<rparr>)
        \<and> (\<forall>body. kw ''text'' = Some (PStr body) \<longrightarrow>
             construct UnexpectedContent fname kw =
               Inr \<lparr>kind = UnexpectedContent, level = ERROR, filename = fname,
                    description = PStr (
                      (if truthy u
                       then ''The <'' @ format tag @ ''> tag with url_name '' @ apos @ format u
                            @ apos
                       else ''A <'' @ format tag @ ''> tag with no url_name'')
                      @ '' should not contain any text ('' @ take 10 (strip body) @ ''...)'')\<rparr>))
     \<and> construct NonFlatFilename fname kw =
          Inr \<lparr>kind = NonFlatFilename, level = WARNING, filename = fname,
               description = PStr (
                 if truthy u
                 then ''The <html> tag with url_name '' @ format u
                      @ '' uses obsolete colon notation to point to a subdirectory for filename ''
                      @ fname
                 else ''An <html> tag with no url_name uses obsolete colon notation to point to a subdirectory for filename ''
                      @ fname)\<rparr>
     \<and> (\<forall>K \<in> set [EmptyTag, UnexpectedTag, UnexpectedContent, NonFlatFilename]. \<forall>e d.
          construct K fname kw = Inr e \<longrightarrow> description e = PStr d \<longrightarrow>
            (if truthy u then sublist (format u) d else sublist ''with no url_name'' d))
     \<and> (\<forall>e d. construct EmptyTag fname kw = Inr e \<longrightarrow> description e = PStr d \<longrightarrow> truthy u \<longrightarrow>
          sublist (apos @ format u @ apos) d)"
proof -
  have a: "\<forall>tag. kw ''tag'' = Some tag \<longrightarrow>
        construct EmptyTag fname kw =
          Inr \<lparr>kind = EmptyTag, level = WARNING, filename = fname,
               description = PStr (
                 if truthy u
                 then ''The <'' @ format tag @ ''> tag with url_name '' @ apos @ format u @ apos
                      @ '' is unexpectedly empty''
                 else ''A <'' @ format tag @ ''> tag with no url_name is unexpectedly empty'')\<rparr>
        \<and> (\<forall>parent. kw ''parent'' = Some parent \<longrightarrow>
             construct UnexpectedTag fname kw =
               Inr \<lparr>kind = UnexpectedTag, level = ERROR, filename = fname,
                    description = PStr (
                      if truthy u
                      then ''A <'' @ format tag @ ''> tag was unexpectedly found inside the <''
                           @ format parent @ ''> tag with url_name '' @ format u
                      else ''A <'' @ format tag @ ''> tag was unexpectedly found inside a <''
                           @ format parent @ ''> tag with no url_name'')\<rparr>)
        \<and> (\<forall>body. kw ''text'' = Some (PStr body) \<longrightarrow>
             construct UnexpectedContent fname kw =
               Inr \<lparr>kind = UnexpectedContent, level = ERROR, filename = fname,
                    description = PStr (
                      (if truthy u
                       then ''The <'' @ format tag @ ''> tag with url_name '' @ apos @ format u
                            @ apos
                       else ''A <'' @ format tag @ ''> tag with no url_name'')
                      @ '' should not contain any text ('' @ take 10 (strip body) @ ''...)'')\<rparr>)"
  proof (intro allI impI conjI)
    fix tag assume t: "kw ''tag'' = Some tag"
    show "construct EmptyTag fname kw =
          Inr \<lparr>kind = EmptyTag, level = WARNING, filename = fname,
               description = PStr (
                 if truthy u
                 then ''The <'' @ format tag @ ''> tag with url_name '' @ apos @ format u @ apos
                      @ '' is unexpectedly empty''
                 else ''A <'' @ format tag @ ''> tag with no url_name is unexpectedly empty'')\<rparr>"
      using construct_eq [OF describe_EmptyTag [of kw u tag fname, OF u t]] by simp
  next
    fix tag parent assume t: "kw ''tag'' = Some tag" and p: "kw ''parent'' = Some parent"
    show "construct UnexpectedTag fname kw =
               Inr \<lparr>kind = UnexpectedTag, level = ERROR, filename = fname,
                    description = PStr (
                      if truthy u
                      then ''A <'' @ format tag @ ''> tag was unexpectedly found inside the <''
                           @ format parent @ ''> tag with url_name '' @ format u
                      else ''A <'' @ format tag @ ''> tag was unexpectedly found inside a <''
                           @ format parent @ ''> tag with no url_name'')\<rparr>"
      using construct_eq [OF describe_UnexpectedTag [of kw u tag parent fname, OF u t p]] by simp
  next
    fix tag body assume t: "kw ''tag'' = Some tag" and x: "kw ''text'' = Some (PStr body)"
    show "construct UnexpectedContent fname kw =
               Inr \<lparr>kind = UnexpectedContent, level = ERROR, filename = fname,
                    description = PStr (
                      (if truthy u
                       then ''The <'' @ format tag @ ''> tag with url_name '' @ apos @ format u
                            @ apos
                       else ''A <'' @ format tag @ ''> tag with no url_name'')
                      @ '' should not contain any text ('' @ take 10 (strip body) @ ''...)'')\<rparr>"
      using construct_eq [OF describe_UnexpectedContent [of kw u tag body fname, OF u t x]] by simp
  qed
  have b: "construct NonFlatFilename fname kw =
          Inr \<lparr>kind = NonFlatFilename, level = WARNING, filename = fname,
               description = PStr (
                 if truthy u
                 then ''The <html> tag with url_name '' @ format u
                      @ '' uses obsolete colon notation to point to a subdirectory for filename ''
                      @ fname
                 else ''An <html> tag with no url_name uses obsolete colon notation to point to a subdirectory for filename ''
                      @ fname)\<rparr>"
    using construct_eq [OF describe_NonFlatFilename [of kw u fname, OF u]] by simp
  have q: "\<And>d. describe EmptyTag fname kw = Inr (PStr d) \<Longrightarrow> truthy u \<Longrightarrow>
             sublist (apos @ format u @ apos) d"
    using phrase_EmptyTag [where kw = kw, OF u] by (simp split: if_splits)
  have x: "\<And>d. describe UnexpectedContent fname kw = Inr (PStr d) \<Longrightarrow> truthy u \<Longrightarrow>
             sublist (apos @ format u @ apos) d"
    using phrase_UnexpectedContent [where kw = kw, OF u] by (simp split: if_splits)
  have c: "\<forall>K \<in> set [EmptyTag, UnexpectedTag, UnexpectedContent, NonFlatFilename]. \<forall>e d.
          construct K fname kw = Inr e \<longrightarrow> description e = PStr d \<longrightarrow>
            (if truthy u then sublist (format u) d else sublist ''with no url_name'' d)"
  proof (intro ballI allI impI)
    fix K e d
    assume K: "K \<in> set [EmptyTag, UnexpectedTag, UnexpectedContent, NonFlatFilename]"
      and e: "construct K fname kw = Inr e" and d: "description e = PStr d"
    from e d have dd: "describe K fname kw = Inr (PStr d)"
      by (auto simp: construct_Inr_iff)
    from K consider "K = EmptyTag" | "K = UnexpectedTag" | "K = UnexpectedContent"
      | "K = NonFlatFilename" by auto
    then show "if truthy u then sublist (format u) d else sublist ''with no url_name'' d"
    proof cases
      case 1
      with dd phrase_EmptyTag [where kw = kw, OF u, of fname d] show ?thesis
        by (auto simp del: describe.simps dest: sublist_quoted split: if_splits)
    next
      case 2
      with dd phrase_UnexpectedTag [where kw = kw, OF u, of fname d] show ?thesis
        by (simp del: describe.simps)
    next
      case 3
      with dd phrase_UnexpectedContent [where kw = kw, OF u, of fname d] show ?thesis
        by (auto simp del: describe.simps dest: sublist_quoted split: if_splits)
    next
      case 4
      with dd phrase_NonFlatFilename [where kw = kw, OF u, of fname d] show ?thesis
        by (simp del: describe.simps)
    qed
  qed
  have e: "\<forall>e d. construct EmptyTag fname kw = Inr e \<longrightarrow> description e = PStr d \<longrightarrow> truthy u \<longrightarrow>
          sublist (apos @ format u @ apos) d"
  proof (intro allI impI)
    fix e d
    assume "construct EmptyTag fname kw = Inr e" and "description e = PStr d" and tr: "truthy u"
    then have "describe EmptyTag fname kw = Inr (PStr d)"
      by (auto simp: construct_Inr_iff)
    then show "sublist (apos @ format u @ apos) d" using tr by (rule q)
  qed
  from a b c e show ?thesis by (intro conjI)
qed

text \<open>
  The theorem at \<^verbatim>\<open>EmptyTag\<close> with the tag \<^verbatim>\<open>chapter\<close>: the empty \<^verbatim>\<open>url_name\<close> gives
  the phrasing with no url_name, and \<^verbatim>\<open>intro\<close> gives the quoted phrasing.
\<close>

theorem url_name_phrasing_witness:
  "[''tag'' \<mapsto> PStr ''chapter'', ''url_name'' \<mapsto> PStr ''''] ''url_name'' = Some (PStr '''')
   \<and> construct EmptyTag ''ch1.xml'' [''tag'' \<mapsto> PStr ''chapter'', ''url_name'' \<mapsto> PStr '''']
       = Inr \<lparr>kind = EmptyTag, level = WARNING, filename = ''ch1.xml'',
              description = PStr ''A <chapter> tag with no url_name is unexpectedly empty''\<rparr>
   \<and> [''tag'' \<mapsto> PStr ''chapter'', ''url_name'' \<mapsto> PStr ''intro''] ''url_name''
       = Some (PStr ''intro'')
   \<and> construct EmptyTag ''ch1.xml'' [''tag'' \<mapsto> PStr ''chapter'', ''url_name'' \<mapsto> PStr ''intro'']
       = Inr \<lparr>kind = EmptyTag, level = WARNING, filename = ''ch1.xml'',
              description = PStr ''The <chapter> tag with url_name 'intro' is unexpectedly empty''\<rparr>"
  using url_name_phrasing [of "[''tag'' \<mapsto> PStr ''chapter'', ''url_name'' \<mapsto> PStr '''']"
      "PStr ''''" "''ch1.xml''"]
    url_name_phrasing [of "[''tag'' \<mapsto> PStr ''chapter'', ''url_name'' \<mapsto> PStr ''intro'']"
      "PStr ''intro''" "''ch1.xml''"]
  by (simp add: apos_def)

text \<open>
  C4. Every \<^verbatim>\<open>UnexpectedContent\<close> constructed with its fields present and a string
  as \<^verbatim>\<open>text\<close> has a description that ends with an opening parenthesis, the first ten
  characters of the text stripped of the whitespace at its two ends, three dots and
  a closing parenthesis; the dots are there whether or not anything was cut. With
  the text \<^verbatim>\<open>This is a long paragraph of text\<close> the description ends in
  \<^verbatim>\<open>(This is a ...)\<close>. Stripping removes whitespace only, and leaves a text that
  neither starts nor ends with whitespace.
\<close>

theorem unexpected_content_excerpt:
  assumes "kw ''url_name'' = Some u" and "kw ''tag'' = Some tag"
    and "kw ''text'' = Some (PStr body)"
  shows "\<exists>e d. construct UnexpectedContent fname kw = Inr e \<and> description e = PStr d
           \<and> suffix (''('' @ take 10 (strip body) @ ''...)'') d
           \<and> (body = ''This is a long paragraph of text'' \<longrightarrow> suffix ''(This is a ...)'' d)
           \<and> (\<exists>l r. body = l @ strip body @ r \<and> list_all isspace l \<and> list_all isspace r)
           \<and> (strip body = [] \<or> (\<not> isspace (hd (strip body)) \<and> \<not> isspace (last (strip body))))"
proof -
  let ?p = "(if truthy u
             then ''The <'' @ format tag @ ''> tag with url_name '' @ apos @ format u @ apos
             else ''A <'' @ format tag @ ''> tag with no url_name'')
            @ '' should not contain any text''"
  let ?d = "?p @ '' ('' @ take 10 (strip body) @ ''...)''"
  have eq: "describe UnexpectedContent fname kw = Inr (PStr ?d)"
    using describe_UnexpectedContent [of kw u tag body fname, OF assms] by simp
  have c: "construct UnexpectedContent fname kw =
             Inr \<lparr>kind = UnexpectedContent, level = kind_level UnexpectedContent,
                  filename = fname, description = PStr ?d\<rparr>"
    using eq by (rule construct_eq)
  have "?d = (?p @ '' '') @ (''('' @ take 10 (strip body) @ ''...)'')" by simp
  then have s1: "suffix (''('' @ take 10 (strip body) @ ''...)'') ?d"
    by (simp only: suffixI)
  have s2: "body = ''This is a long paragraph of text'' \<longrightarrow> suffix ''(This is a ...)'' ?d"
  proof
    assume b: "body = ''This is a long paragraph of text''"
    have "''('' @ take 10 (strip body) @ ''...)'' = ''(This is a ...)''"
      unfolding b strip_paragraph by simp
    with s1 show "suffix ''(This is a ...)'' ?d" by simp
  qed
  from c s1 s2 strip_trims [of body] strip_ends [of body] show ?thesis by simp
qed
theorem unexpected_content_excerpt_witness:
  "[''tag'' \<mapsto> PStr ''p'', ''url_name'' \<mapsto> PNone,
    ''text'' \<mapsto> PStr ''This is a long paragraph of text''] ''url_name'' = Some PNone
   \<and> [''tag'' \<mapsto> PStr ''p'', ''url_name'' \<mapsto> PNone,
    ''text'' \<mapsto> PStr ''This is a long paragraph of text''] ''tag'' = Some (PStr ''p'')
   \<and> [''tag'' \<mapsto> PStr ''p'', ''url_name'' \<mapsto> PNone,
    ''text'' \<mapsto> PStr ''This is a long paragraph of text''] ''text''
       = Some (PStr ''This is a long paragraph of text'')
   \<and> (\<exists>e d. construct UnexpectedContent ''unit.xml''
         [''tag'' \<mapsto> PStr ''p'', ''url_name'' \<mapsto> PNone,
          ''text'' \<mapsto> PStr ''This is a long paragraph of text''] = Inr e
        \<and> description e = PStr d \<and> suffix ''(This is a ...)'' d)"
  using unexpected_content_excerpt [of "[''tag'' \<mapsto> PStr ''p'', ''url_name'' \<mapsto> PNone,
          ''text'' \<mapsto> PStr ''This is a long paragraph of text'']" PNone "PStr ''p''"
          "''This is a long paragraph of text''" "''unit.xml''"]
  by auto

text \<open>
  C5, as the claim states it, fails: with every expected field supplied,
  \<^verbatim>\<open>InvalidXML\<close> given the empty string as \<^verbatim>\<open>error\<close> is constructed with an empty
  description, since the class stores the field as its description; and
  \<^verbatim>\<open>UnexpectedContent\<close> given \<^verbatim>\<open>None\<close> as \<^verbatim>\<open>text\<close> raises, since \<^verbatim>\<open>None\<close> has no
  method \<^verbatim>\<open>strip\<close>.
\<close>

theorem construct_not_total_counterexample:
  "set (expected_kwargs InvalidXML) \<subseteq> dom [''error'' \<mapsto> PStr '''']
   \<and> construct InvalidXML ''course.xml'' [''error'' \<mapsto> PStr '''']
     = Inr \<lparr>kind = InvalidXML, level = ERROR, filename = ''course.xml'', description = PStr ''''\<rparr>
   \<and> set (expected_kwargs UnexpectedContent)
       \<subseteq> dom [''tag'' \<mapsto> PStr ''p'', ''url_name'' \<mapsto> PNone, ''text'' \<mapsto> PNone]
   \<and> construct UnexpectedContent ''unit.xml''
       [''tag'' \<mapsto> PStr ''p'', ''url_name'' \<mapsto> PNone, ''text'' \<mapsto> PNone]
     = Inl (AttributeError ''strip'')"
  by (simp add: construct_def getitem_def)

text \<open>
  C5, amended. For every class \<open>K\<close> and every keyword dictionary that supplies all
  the fields \<open>K\<close> expects, with a string as \<^verbatim>\<open>text\<close> when \<open>K\<close> is
  \<^verbatim>\<open>UnexpectedContent\<close>, the construction raises nothing and returns an instance of
  \<open>K\<close>. Its description is a non-empty string for every class but \<^verbatim>\<open>InvalidXML\<close>
  and \<^verbatim>\<open>InvalidHTML\<close>; for these two it is the supplied field \<^verbatim>\<open>error\<close> itself.
\<close>

theorem construct_supplied:
  assumes "set (expected_kwargs K) \<subseteq> dom kw"
    and "K = UnexpectedContent \<longrightarrow> (\<exists>body. kw ''text'' = Some (PStr body))"
  shows "\<exists>e. construct K fname kw = Inr e \<and> kind e = K \<and> filename e = fname
           \<and> (if K = InvalidXML \<or> K = InvalidHTML then kw ''error'' = Some (description e)
               else \<exists>d. description e = PStr d \<and> d \<noteq> [])"
  using assms
  by (cases K) (auto simp: construct_def getitem_Some)

text \<open>
  The theorem at \<^verbatim>\<open>UnexpectedContent\<close> and at \<^verbatim>\<open>TagMismatch\<close>, each with all its
  fields.
\<close>

theorem construct_supplied_witness:
  "set (expected_kwargs UnexpectedContent)
     \<subseteq> dom [''tag'' \<mapsto> PStr ''p'', ''url_name'' \<mapsto> PStr ''intro'', ''text'' \<mapsto> PStr ''Hello'']
   \<and> [''tag'' \<mapsto> PStr ''p'', ''url_name'' \<mapsto> PStr ''intro'', ''text'' \<mapsto> PStr ''Hello''] ''text''
       = Some (PStr ''Hello'')
   \<and> construct UnexpectedContent ''unit.xml''
       [''tag'' \<mapsto> PStr ''p'', ''url_name'' \<mapsto> PStr ''intro'', ''text'' \<mapsto> PStr ''Hello'']
     = Inr \<lparr>kind = UnexpectedContent, level = ERROR, filename = ''unit.xml'',
            description =
              PStr ''The <p> tag with url_name 'intro' should not contain any text (Hello...)''\<rparr>
   \<and> set (expected_kwargs TagMismatch)
       \<subseteq> dom [''tag1'' \<mapsto> PStr ''chapter'', ''tag2'' \<mapsto> PStr ''sequential'']
   \<and> construct TagMismatch ''ch1.xml'' [''tag1'' \<mapsto> PStr ''chapter'', ''tag2'' \<mapsto> PStr ''sequential'']
     = Inr \<lparr>kind = TagMismatch, level = ERROR, filename = ''ch1.xml'',
            description = PStr ''A file is of type <chapter> but opens with a <sequential> tag''\<rparr>"
  using construct_supplied [of UnexpectedContent
      "[''tag'' \<mapsto> PStr ''p'', ''url_name'' \<mapsto> PStr ''intro'', ''text'' \<mapsto> PStr ''Hello'']"
      "''unit.xml''"]
    construct_supplied [of TagMismatch
      "[''tag1'' \<mapsto> PStr ''chapter'', ''tag2'' \<mapsto> PStr ''sequential'']" "''ch1.xml''"]
  by (simp add: construct_def getitem_def strip_def isspace_def apos_def)

text \<open>
  C6. For every class \<open>K\<close>, a construction whose keyword dictionary lacks one of the
  fields that \<open>K\<close> expects raises \<^verbatim>\<open>KeyError\<close> for a field that \<open>K\<close> expects and
  that is missing (the first such field that \<^verbatim>\<open>__init__\<close> reads); no instance is
  returned.
\<close>

theorem construct_missing_field:
  assumes "f \<in> set (expected_kwargs K)" and "kw f = None"
  shows "\<exists>g. g \<in> set (expected_kwargs K) \<and> kw g = None
           \<and> construct K fname kw = Inl (KeyError g)"
proof (cases K)
  case CourseXMLDoesNotExist
  with assms show ?thesis by simp
next
  case InvalidXML
  with assms show ?thesis by (auto simp: construct_def getitem_def)
next
  case InvalidHTML
  with assms show ?thesis by (auto simp: construct_def getitem_def)
next
  case CourseXMLName
  with assms show ?thesis by simp
next
  case TagMismatch
  with assms show ?thesis
    by (cases "kw ''tag1''"; cases "kw ''tag2''") (auto simp: construct_def getitem_def)
next
  case EmptyTag
  with assms show ?thesis
    by (cases "kw ''url_name''"; cases "kw ''tag''") (auto simp: construct_def getitem_def)
next
  case ExtraURLName
  with assms show ?thesis by (auto simp: construct_def getitem_def)
next
  case InvalidPointer
  with assms show ?thesis
    by (cases "kw ''tag''"; cases "kw ''url_name''") (auto simp: construct_def getitem_def)
next
  case FileDoesNotExist
  with assms show ?thesis
    by (cases "kw ''tag''"; cases "kw ''url_name''"; cases "kw ''new_file''")
       (auto simp: construct_def getitem_def)
next
  case SelfPointer
  with assms show ?thesis
    by (cases "kw ''tag''"; cases "kw ''url_name''") (auto simp: construct_def getitem_def)
next
  case UnexpectedTag
  with assms show ?thesis
    by (cases "kw ''url_name''"; cases "kw ''tag''"; cases "kw ''parent''")
       (auto simp: construct_def getitem_def)
next
  case PossiblePointer
  with assms show ?thesis
    by (cases "kw ''tag''"; cases "kw ''url_name''"; cases "kw ''new_file''")
       (auto simp: construct_def getitem_def)
next
  case UnexpectedContent
  with assms show ?thesis
    by (simp only: UnexpectedContent_missing)
next
  case NonFlatURLName
  with assms show ?thesis
    by (cases "kw ''tag''"; cases "kw ''url_name''") (auto simp: construct_def getitem_def)
next
  case NonFlatFilename
  with assms show ?thesis by (auto simp: construct_def getitem_def)
qed

text \<open>
  The theorem at \<^verbatim>\<open>TagMismatch\<close> constructed without \<^verbatim>\<open>tag2\<close>: \<^verbatim>\<open>KeyError\<close> for
  \<^verbatim>\<open>tag2\<close>.
\<close>

theorem construct_missing_field_witness:
  "''tag2'' \<in> set (expected_kwargs TagMismatch)
   \<and> [''tag1'' \<mapsto> PStr ''chapter''] ''tag2'' = None
   \<and> construct TagMismatch ''ch1.xml'' [''tag1'' \<mapsto> PStr ''chapter''] = Inl (KeyError ''tag2'')"
  using construct_missing_field [of "''tag2''" TagMismatch "[''tag1'' \<mapsto> PStr ''chapter'']"
      "''ch1.xml''"]
  by (simp add: construct_def getitem_def)

text \<open>
  C7. Raising \<^verbatim>\<open>CourseXMLDoesNotExist\<close> with the filename \<^verbatim>\<open>course.xml\<close> into an empty
  store and then reporting the store writes exactly one line,
  \<^verbatim>\<open>ERROR (course.xml): The file 'course.xml' does not exist. (CourseXMLDoesNotExist)\<close>.
  The class reads no keyword field, so the line is the same for every \<open>kw\<close>.
\<close>

theorem course_xml_does_not_exist_report:
  "bind (raise_diagnostic CourseXMLDoesNotExist ''course.xml'' kw \<lparr>errors = []\<rparr>)
        (\<lambda>errorstore. Inr (snd (report_errors errorstore [])))
     = Inr [''ERROR (course.xml): The file 'course.xml' does not exist. (CourseXMLDoesNotExist)''
            @ [CHR 0x0A]]"
  by (simp add: raise_diagnostic_def construct_def report_errors_def print_def report_line_def
        name_def apos_def)

text \<open>
  C10. There are fifteen classes. Exactly five have the level WARNING:
  \<^verbatim>\<open>CourseXMLName\<close>, \<^verbatim>\<open>EmptyTag\<close>, \<^verbatim>\<open>PossiblePointer\<close>, \<^verbatim>\<open>NonFlatURLName\<close> and
  \<^verbatim>\<open>NonFlatFilename\<close>; the other ten have the level ERROR. Every instance that is
  constructed carries the level of its class.
\<close>

theorem severities:
  "length all_kinds = 15 \<and> distinct all_kinds \<and> set all_kinds = UNIV
   \<and> filter (\<lambda>K. kind_level K = WARNING) all_kinds
       = [CourseXMLName, EmptyTag, PossiblePointer, NonFlatURLName, NonFlatFilename]
   \<and> filter (\<lambda>K. kind_level K = ERROR) all_kinds
       = [CourseXMLDoesNotExist, InvalidXML, InvalidHTML, TagMismatch, ExtraURLName,
          InvalidPointer, FileDoesNotExist, SelfPointer, UnexpectedTag, UnexpectedContent]
   \<and> (\<forall>K fname kw e. construct K fname kw = Inr e \<longrightarrow> kind e = K \<and> level e = kind_level K)"
proof -
  have "set all_kinds = UNIV"
  proof
    show "UNIV \<subseteq> set all_kinds"
    proof
      fix K :: kind
      show "K \<in> set all_kinds" by (cases K) (simp_all add: all_kinds_def)
    qed
  qed simp
  moreover have "\<forall>K fname kw e. construct K fname kw = Inr e \<longrightarrow> kind e = K \<and> level e = kind_level K"
    by (auto simp: construct_Inr_iff)
  ultimately show ?thesis by (simp add: all_kinds_def)
qed

text \<open>The theorem at an \<^verbatim>\<open>EmptyTag\<close>: the instance carries WARNING.\<close>

theorem severities_witness:
  "construct EmptyTag ''ch1.xml'' [''tag'' \<mapsto> PStr ''chapter'', ''url_name'' \<mapsto> PNone]
     = Inr \<lparr>kind = EmptyTag, level = WARNING, filename = ''ch1.xml'',
            description = PStr ''A <chapter> tag with no url_name is unexpectedly empty''\<rparr>
   \<and> level \<lparr>kind = EmptyTag, level = WARNING, filename = ''ch1.xml'',
            description = PStr ''A <chapter> tag with no url_name is unexpectedly empty''\<rparr>
     = kind_level EmptyTag"
  using severities by (simp add: construct_def getitem_def)

end
